theory Spec2Isabelle
  imports Main "HOL-Library.Sublist"
begin

text \<open>
  A model of \<^verbatim>\<open>call-script.mjs\<close>. \<^verbatim>\<open>callScript\<close> chooses a debugger image by the
  extension of the main file, assembles the arguments of a \<^verbatim>\<open>docker run\<close> command with
  its bind mounts, starts it, and extracts from the output the text between the
  sentinels \<^verbatim>\<open>RESULT_BEGIN\<close> and \<^verbatim>\<open>RESULT_END\<close>. The definitions follow the source
  statement by statement; the theorems at the end state what the extractor, the mount
  serialization, the command assembler and \<^verbatim>\<open>callScript\<close> do.
\<close>

section \<open>JavaScript strings\<close>

text \<open>
  A JavaScript string is a sequence of code units. It is modelled as a \<open>string\<close>
  (a list of \<open>char\<close>), one \<open>char\<close> for each code unit, which covers the code units
  \<open>0x00\<close> to \<open>0xFF\<close>. The sentinels, the table keys, the flags and the path separators of
  \<^verbatim>\<open>call-script.mjs\<close> are all ASCII.
\<close>

text \<open>
  \<^verbatim>\<open>String.prototype.indexOf(sub)\<close>: the smallest index at which \<open>sub\<close> occurs, \<open>-1\<close> when
  there is none. The third argument is the index of the head of the remaining string.
\<close>

fun indexOf_from :: "string \<Rightarrow> string \<Rightarrow> nat \<Rightarrow> int" where
  "indexOf_from [] sub k = (if sub = [] then int k else - 1)"
| "indexOf_from (c # cs) sub k =
     (if prefix sub (c # cs) then int k else indexOf_from cs sub (Suc k))"

definition indexOf :: "string \<Rightarrow> string \<Rightarrow> int" where
  "indexOf s sub = indexOf_from s sub 0"

text \<open>
  \<^verbatim>\<open>String.prototype.lastIndexOf(sub)\<close>: the greatest index at which \<open>sub\<close> occurs, \<open>-1\<close>
  when there is none.
\<close>

definition lastIndexOf :: "string \<Rightarrow> string \<Rightarrow> int" where
  "lastIndexOf s sub =
     (case filter (\<lambda>k. prefix sub (drop k s)) (rev [0..<Suc (length s)]) of
        [] \<Rightarrow> - 1
      | k # _ \<Rightarrow> int k)"

text \<open>\<^verbatim>\<open>String.prototype.includes(sub)\<close>: whether \<open>indexOf\<close> finds an occurrence.\<close>

definition includes_str :: "string \<Rightarrow> string \<Rightarrow> bool" where
  "includes_str s sub = (indexOf s sub \<noteq> - 1)"

text \<open>
  \<^verbatim>\<open>String.prototype.slice(start, end)\<close>: a negative index counts from the end of the
  string, every index is clamped to the string, and the result is empty when the clamped
  start is not before the clamped end. \<open>slice1\<close> is the call with one argument, whose end
  is the length of the string.
\<close>

definition slice :: "string \<Rightarrow> int \<Rightarrow> int \<Rightarrow> string" where
  "slice s start fin =
     (let len = int (length s);
          from = (if start < 0 then max (len + start) 0 else min start len);
          to = (if fin < 0 then max (len + fin) 0 else min fin len)
      in take (nat (to - from)) (drop (nat from) s))"

definition slice1 :: "string \<Rightarrow> int \<Rightarrow> string" where
  "slice1 s start = slice s start (int (length s))"

text \<open>
  \<^verbatim>\<open>String.prototype.trim()\<close> removes white space and line terminators from both ends.
  Among the code units up to \<open>0xFF\<close> these are tab, line feed, vertical tab, form feed,
  carriage return, space and the no-break space.
\<close>

definition is_ws :: "char \<Rightarrow> bool" where
  "is_ws c = (c \<in> {CHR 0x09, CHR 0x0A, CHR 0x0B, CHR 0x0C, CHR 0x0D, CHR 0x20, CHR 0xA0})"

definition trim :: "string \<Rightarrow> string" where
  "trim s = rev (dropWhile is_ws (rev (dropWhile is_ws s)))"

text \<open>
  The position of the first occurrence, stated without the search: \<open>sub\<close> is found at
  index \<open>k\<close> of \<open>s\<close> and at no smaller index.
\<close>

definition first_at :: "string \<Rightarrow> string \<Rightarrow> nat \<Rightarrow> bool" where
  "first_at s sub k =
     (k \<le> length s \<and> prefix sub (drop k s) \<and> (\<forall>j<k. \<not> prefix sub (drop j s)))"

section \<open>The result extractor of \<^verbatim>\<open>callScript\<close>\<close>

text \<open>
  An \<^verbatim>\<open>Error\<close> object is modelled by its message. The effects of the script on the
  outside are the lines it writes with \<^verbatim>\<open>console.info\<close> and \<^verbatim>\<open>console.error\<close> and the
  process it starts with \<^verbatim>\<open>cp.spawnSync\<close>.
\<close>

datatype error = Error string

text \<open>The property \<^verbatim>\<open>name\<close> of an object made by \<^verbatim>\<open>new Error(message)\<close>.\<close>

fun error_name :: "error \<Rightarrow> string" where
  "error_name (Error message) = ''Error''"

datatype effect =
  ConsoleInfo "string list"
| ConsoleError string error
| SpawnSync string "string list"

text \<open>
  The promise \<^verbatim>\<open>json\<close> is pending, fulfilled with the extracted text, or rejected with a
  process error. The closure of the promise's executor holds the accumulation buffer
  \<^verbatim>\<open>raw\<close>; \<open>listening\<close> records whether \<^verbatim>\<open>onData\<close> is still registered on the
  \<^verbatim>\<open>'data'\<close> event, and \<open>console\<close> collects what the listeners have written.
\<close>

datatype promise = Pending | Fulfilled string | Rejected error

record extractor =
  raw :: string
  json :: promise
  listening :: bool
  console :: "effect list"

definition begin_sentinel :: string where
  "begin_sentinel = ''RESULT_BEGIN''"

definition end_sentinel :: string where
  "end_sentinel = ''RESULT_END''"

text \<open>The state when the listeners have just been registered: \<^verbatim>\<open>let raw = ''\<close>.\<close>

definition initial :: extractor where
  "initial = \<lparr>raw = '''', json = Pending, listening = True, console = []\<rparr>"

text \<open>Settling a promise that is already settled has no effect.\<close>

definition resolve :: "string \<Rightarrow> extractor \<Rightarrow> extractor" where
  "resolve v s = (case json s of Pending \<Rightarrow> s\<lparr>json := Fulfilled v\<rparr> | _ \<Rightarrow> s)"

definition reject :: "error \<Rightarrow> extractor \<Rightarrow> extractor" where
  "reject e s = (case json s of Pending \<Rightarrow> s\<lparr>json := Rejected e\<rparr> | _ \<Rightarrow> s)"

text \<open>\<^verbatim>\<open>process.stdout.off('data', onData)\<close>\<close>

definition off :: "extractor \<Rightarrow> extractor" where
  "off s = s\<lparr>listening := False\<rparr>"

text \<open>
  \<^verbatim>\<open>
  const onData = (data) => {
    let message = data.toString('utf-8')
    if (message.includes(begin)) {
      message = message.slice(message.indexOf(begin) + begin.length)
      if (!message.includes(end)) raw += message
    }
    if (message.includes(end)) {
      message = message.slice(0, message.indexOf(end))
      resolve((raw + message).trim())
      process.stdout.off('data', onData)
    }
  }
  \<close>
  The argument \<open>data\<close> of the model is the decoded text of the chunk.
\<close>

definition onData :: "extractor \<Rightarrow> string \<Rightarrow> extractor" where
  "onData s data =
     (let message = data;
          (message, s) =
            (if includes_str message begin_sentinel then
               (let message = slice1 message
                                (indexOf message begin_sentinel + int (length begin_sentinel))
                in (message,
                    if \<not> includes_str message end_sentinel then s\<lparr>raw := raw s @ message\<rparr>
                    else s))
             else (message, s))
      in if includes_str message end_sentinel then
           (let message = slice message 0 (indexOf message end_sentinel)
            in off (resolve (trim (raw s @ message)) s))
         else s)"

text \<open>
  The events the two listeners of the executor receive: a chunk of the output stream,
  delivered to \<^verbatim>\<open>onData\<close> while it is registered, and a process error, delivered to
  the listener that is never removed:
  \<^verbatim>\<open>
  process.on('error', (error) => {
    console.error('process error:', error)
    reject(error)
  })
  \<close>
  \<open>run\<close> delivers a sequence of events in order.
\<close>

datatype event = Data string | ProcessError error

fun on_event :: "extractor \<Rightarrow> event \<Rightarrow> extractor" where
  "on_event s (Data d) = (if listening s then onData s d else s)"
| "on_event s (ProcessError e) =
     reject e (s\<lparr>console := console s @ [ConsoleError ''process error:'' e]\<rparr>)"

definition run :: "extractor \<Rightarrow> event list \<Rightarrow> extractor" where
  "run s evs = foldl on_event s evs"

section \<open>JavaScript values in an array\<close>

text \<open>
  The arrays that \<^verbatim>\<open>call-script.mjs\<close> filters with \<^verbatim>\<open>.filter(Boolean)\<close> and joins hold
  strings, booleans and \<^verbatim>\<open>undefined\<close>. \<open>Boolean\<close> is the conversion to a boolean (the
  empty string, \<^verbatim>\<open>false\<close> and \<^verbatim>\<open>undefined\<close> are falsy), \<open>js_and\<close> is the operator
  \<^verbatim>\<open>&&\<close>, and \<open>join\<close> is \<^verbatim>\<open>Array.prototype.join\<close>, which writes \<^verbatim>\<open>undefined\<close> as the
  empty string.
\<close>

datatype jsval = JString string | JBoolean bool | JUndefined

fun Boolean :: "jsval \<Rightarrow> bool" where
  "Boolean (JString s) = (s \<noteq> [])"
| "Boolean (JBoolean b) = b"
| "Boolean JUndefined = False"

definition js_and :: "jsval \<Rightarrow> jsval \<Rightarrow> jsval" where
  "js_and a b = (if Boolean a then b else a)"

fun toString :: "jsval \<Rightarrow> string" where
  "toString (JString s) = s"
| "toString (JBoolean b) = (if b then ''true'' else ''false'')"
| "toString JUndefined = ''undefined''"

fun join :: "string \<Rightarrow> jsval list \<Rightarrow> string" where
  "join sep [] = ''''"
| "join sep [v] = (if v = JUndefined then '''' else toString v)"
| "join sep (v # w # vs) =
     (if v = JUndefined then '''' else toString v) @ sep @ join sep (w # vs)"

section \<open>The functions of the Node.js module \<^verbatim>\<open>path\<close> that the script calls\<close>

text \<open>
  \<^verbatim>\<open>path.extname\<close>, \<^verbatim>\<open>path.dirname\<close> and \<^verbatim>\<open>path.resolve\<close> belong to the Node.js
  runtime, not to this repository. They are modelled after the POSIX implementation in
  Node's \<^verbatim>\<open>lib/path.js\<close>, loop by loop. The working directory of the process, which
  \<^verbatim>\<open>path.resolve\<close> and \<^verbatim>\<open>process.cwd()\<close> read, is the parameter \<open>cwd\<close>.
\<close>

text \<open>
  \<^verbatim>\<open>normalizeString(path, allowAboveRoot, '/', isPosixPathSeparator)\<close> scans the indices
  \<open>0\<close> to \<open>path.length\<close>; \<open>normalize_step\<close> is one pass of its loop body at index \<open>i\<close>
  (every \<^verbatim>\<open>continue\<close> of the body has set \<open>lastSlash\<close> and \<open>dots\<close> itself), and the
  loop leaves at the end of the path when the last character read was a separator.
\<close>

record norm_state =
  res :: string
  lastSegmentLength :: int
  lastSlash :: int
  dots :: int
  code :: char

definition normalize_step :: "string \<Rightarrow> bool \<Rightarrow> nat \<Rightarrow> norm_state \<Rightarrow> norm_state" where
  "normalize_step path allowAboveRoot i st0 =
     (let st = st0\<lparr>code := (if i < length path then path ! i else CHR ''/'')\<rparr> in
      if code st = CHR ''/'' then
        (if lastSlash st = int i - 1 \<or> dots st = 1 then st\<lparr>lastSlash := int i, dots := 0\<rparr>
         else if dots st = 2 then
           (let above =
                  (let st = (if allowAboveRoot
                             then st\<lparr>res := res st @ (if length (res st) > 0 then ''/..'' else ''..''),
                                     lastSegmentLength := 2\<rparr>
                             else st)
                   in st\<lparr>lastSlash := int i, dots := 0\<rparr>)
            in if length (res st) < 2 \<or> lastSegmentLength st \<noteq> 2 \<or>
                  res st ! (length (res st) - 1) \<noteq> CHR ''.'' \<or>
                  res st ! (length (res st) - 2) \<noteq> CHR ''.'' then
                 (if length (res st) > 2 then
                    (let lastSlashIndex = lastIndexOf (res st) ''/'' in
                     if lastSlashIndex = - 1 then
                       st\<lparr>res := '''', lastSegmentLength := 0, lastSlash := int i, dots := 0\<rparr>
                     else
                       (let r = slice (res st) 0 lastSlashIndex in
                        st\<lparr>res := r,
                           lastSegmentLength := int (length r) - 1 - lastIndexOf r ''/'',
                           lastSlash := int i, dots := 0\<rparr>))
                  else if length (res st) \<noteq> 0 then
                    st\<lparr>res := '''', lastSegmentLength := 0, lastSlash := int i, dots := 0\<rparr>
                  else above)
               else above)
         else
           (let segment = slice path (lastSlash st + 1) (int i) in
            st\<lparr>res := (if length (res st) > 0 then res st @ ''/'' @ segment else segment),
               lastSegmentLength := int i - lastSlash st - 1,
               lastSlash := int i, dots := 0\<rparr>))
      else if code st = CHR ''.'' \<and> dots st \<noteq> - 1 then st\<lparr>dots := dots st + 1\<rparr>
      else st\<lparr>dots := - 1\<rparr>)"

function normalizeString_loop :: "string \<Rightarrow> bool \<Rightarrow> nat \<Rightarrow> norm_state \<Rightarrow> string" where
  "normalizeString_loop path allowAboveRoot i st =
     (if i \<le> length path then
        (if \<not> i < length path \<and> code st = CHR ''/'' then res st
         else normalizeString_loop path allowAboveRoot (Suc i)
                (normalize_step path allowAboveRoot i st))
      else res st)"
  by pat_completeness auto
termination
  by (relation "measure (\<lambda>(path, allowAboveRoot, i, st). Suc (length path) - i)") auto

definition normalizeString :: "string \<Rightarrow> bool \<Rightarrow> string" where
  "normalizeString path allowAboveRoot =
     normalizeString_loop path allowAboveRoot 0
       \<lparr>res = '''', lastSegmentLength = 0, lastSlash = - 1, dots = 0, code = CHR 0x00\<rparr>"

text \<open>
  \<^verbatim>\<open>path.resolve(...args)\<close> reads its arguments from the last to the first, then the
  working directory, and stops at the first absolute one; empty arguments are skipped.
  The list given to \<open>resolve_loop\<close> is in the order of reading.
\<close>

fun resolve_loop :: "string list \<Rightarrow> string \<Rightarrow> bool \<Rightarrow> string \<times> bool" where
  "resolve_loop [] resolvedPath resolvedAbsolute = (resolvedPath, resolvedAbsolute)"
| "resolve_loop (path # paths) resolvedPath resolvedAbsolute =
     (if resolvedAbsolute then (resolvedPath, resolvedAbsolute)
      else if length path = 0 then resolve_loop paths resolvedPath resolvedAbsolute
      else resolve_loop paths (path @ ''/'' @ resolvedPath) (path ! 0 = CHR ''/''))"

definition path_resolve :: "string \<Rightarrow> string list \<Rightarrow> string" where
  "path_resolve cwd args =
     (let (resolvedPath, resolvedAbsolute) = resolve_loop (rev args @ [cwd]) '''' False;
          resolvedPath = normalizeString resolvedPath (\<not> resolvedAbsolute)
      in if resolvedAbsolute then ''/'' @ resolvedPath
         else if length resolvedPath > 0 then resolvedPath else ''.'')"

text \<open>
  \<^verbatim>\<open>path.dirname(path)\<close> scans from the last index down to index \<open>1\<close> for the first
  separator that follows a character other than a separator; \<open>dirname_loop path j\<close> is
  the scan from index \<open>j\<close> and returns the variable \<^verbatim>\<open>end\<close>.
\<close>

fun dirname_loop :: "string \<Rightarrow> nat \<Rightarrow> bool \<Rightarrow> int" where
  "dirname_loop path 0 matchedSlash = - 1"
| "dirname_loop path (Suc j) matchedSlash =
     (if path ! Suc j = CHR ''/'' then
        (if \<not> matchedSlash then int (Suc j) else dirname_loop path j matchedSlash)
      else dirname_loop path j False)"

definition dirname :: "string \<Rightarrow> string" where
  "dirname path =
     (if length path = 0 then ''.''
      else
        (let hasRoot = (path ! 0 = CHR ''/'');
             end_idx = dirname_loop path (length path - 1) True
         in if end_idx = - 1 then (if hasRoot then ''/'' else ''.'')
            else if hasRoot \<and> end_idx = 1 then ''//''
            else slice path 0 end_idx))"

text \<open>
  \<^verbatim>\<open>path.extname(path)\<close> scans from the last index down to \<open>0\<close>;
  \<open>extname_loop path n\<close> is the scan of the indices below \<open>n\<close>, and the field \<open>end_idx\<close>
  is the variable \<^verbatim>\<open>end\<close>.
\<close>

record ext_state =
  startDot :: int
  startPart :: int
  end_idx :: int
  matchedSlash :: bool
  preDotState :: int

fun extname_loop :: "string \<Rightarrow> nat \<Rightarrow> ext_state \<Rightarrow> ext_state" where
  "extname_loop path 0 st = st"
| "extname_loop path (Suc i) st =
     (if path ! i = CHR ''/'' then
        (if \<not> matchedSlash st then st\<lparr>startPart := int i + 1\<rparr>
         else extname_loop path i st)
      else
        (let st = (if end_idx st = - 1 then st\<lparr>end_idx := int i + 1, matchedSlash := False\<rparr>
                   else st);
             st = (if path ! i = CHR ''.'' then
                     (if startDot st = - 1 then st\<lparr>startDot := int i\<rparr>
                      else if preDotState st \<noteq> 1 then st\<lparr>preDotState := 1\<rparr>
                      else st)
                   else if startDot st \<noteq> - 1 then st\<lparr>preDotState := - 1\<rparr>
                   else st)
         in extname_loop path i st))"

definition extname :: "string \<Rightarrow> string" where
  "extname path =
     (let st = extname_loop path (length path)
                 \<lparr>startDot = - 1, startPart = 0, end_idx = - 1, matchedSlash = True,
                  preDotState = 0\<rparr>
      in if startDot st = - 1 \<or> end_idx st = - 1 \<or> preDotState st = 0 \<or>
            (preDotState st = 1 \<and> startDot st = end_idx st - 1 \<and>
             startDot st = startPart st + 1)
         then ''''
         else slice path (startDot st) (end_idx st))"

text \<open>
  What the scan of \<open>extname\<close> keeps true of its state: once set, \<open>end_idx\<close> lies
  within the path, and \<open>startDot\<close> is the index of a dot before \<open>end_idx\<close>.
\<close>

definition ext_inv :: "string \<Rightarrow> ext_state \<Rightarrow> bool" where
  "ext_inv p st =
     ((end_idx st = - 1 \<or> end_idx st \<le> int (length p)) \<and>
      (startDot st = - 1 \<or> (0 \<le> startDot st \<and> startDot st < end_idx st \<and>
         p ! nat (startDot st) = CHR ''.'')))"

text \<open>
  The last component of a path, for stating what \<open>extname\<close> looks at: the text after the
  last separator, once the separators that end the path are set aside.
\<close>

definition last_component :: "string \<Rightarrow> string" where
  "last_component path =
     rev (takeWhile (\<lambda>c. c \<noteq> CHR ''/'') (dropWhile (\<lambda>c. c = CHR ''/'') (rev path)))"

section \<open>Runtime table, paths and mounts\<close>

text \<open>
  \<^verbatim>\<open>DockerImage\<close> is the union of three string literals; \<open>image_name\<close> gives the string.
  \<^verbatim>\<open>dockerRunConfigs\<close> is an object literal: its entries are kept in the order written,
  which is the order of \<^verbatim>\<open>Object.keys\<close>, and a property is looked up with \<open>map_of\<close>
  (the lemma \<open>extname_shape\<close> below shows that the keys looked up are never names of
  inherited properties).
\<close>

datatype DockerImage = lldb_debugger | php_debugger | python_debugger

fun image_name :: "DockerImage \<Rightarrow> string" where
  "image_name lldb_debugger = ''lldb-debugger''"
| "image_name php_debugger = ''php-debugger''"
| "image_name python_debugger = ''python-debugger''"

record DockerRunConfig =
  image :: DockerImage

definition dockerRunConfigs :: "(string \<times> DockerRunConfig) list" where
  "dockerRunConfigs =
     [(''.c'', \<lparr>image = lldb_debugger\<rparr>),
      (''.cpp'', \<lparr>image = lldb_debugger\<rparr>),
      (''.php'', \<lparr>image = php_debugger\<rparr>),
      (''.py'', \<lparr>image = python_debugger\<rparr>)]"

text \<open>
  \<^verbatim>\<open>DockerMount\<close>: the properties \<^verbatim>\<open>type\<close> (whose only value is \<^verbatim>\<open>'bind'\<close>) and
  \<^verbatim>\<open>readOnly\<close> are optional; \<open>None\<close> is an absent property.
\<close>

datatype mount_type = bind

fun mount_type_name :: "mount_type \<Rightarrow> string" where
  "mount_type_name bind = ''bind''"

record DockerMount =
  type :: "mount_type option"
  source :: string
  target :: string
  readOnly :: "bool option"

text \<open>
  \<^verbatim>\<open>
  const toDockerMountArgs = ({ type = 'bind', source, target, readOnly }) => {
    const arg = [
      `type=${type}`,
      `source=${source}`,
      `target=${target}`,
      readOnly && 'readonly',
    ].filter(Boolean).join(',')
    return ['--mount', arg]
  }
  \<close>
\<close>

definition toDockerMountArgs :: "DockerMount \<Rightarrow> string list" where
  "toDockerMountArgs mount =
     (let type = (case type mount of None \<Rightarrow> bind | Some t \<Rightarrow> t);
          arg = join '',''
                  (filter Boolean
                     [JString (''type='' @ mount_type_name type),
                      JString (''source='' @ source mount),
                      JString (''target='' @ target mount),
                      js_and (case readOnly mount of None \<Rightarrow> JUndefined | Some b \<Rightarrow> JBoolean b)
                             (JString ''readonly'')])
      in [''--mount'', arg])"

text \<open>
  The object \<^verbatim>\<open>paths\<close>: \<^verbatim>\<open>dockerRoot\<close> is a constant, \<^verbatim>\<open>selfRoot\<close> is
  \<^verbatim>\<open>process.cwd()\<close>, and each other member resolves a fixed relative path against a
  root.
\<close>

definition dockerRoot :: string where
  "dockerRoot = ''/usr/project''"

definition selfRoot :: "string \<Rightarrow> string" where
  "selfRoot cwd = cwd"

definition paths_output :: "string \<Rightarrow> string \<Rightarrow> string" where
  "paths_output cwd root = path_resolve cwd [root, ''./out'']"

definition paths_nodeModules :: "string \<Rightarrow> string \<Rightarrow> string" where
  "paths_nodeModules cwd root = path_resolve cwd [root, ''./node_modules'']"

definition paths_vscodeLldb :: "string \<Rightarrow> string \<Rightarrow> string" where
  "paths_vscodeLldb cwd root = path_resolve cwd [root, ''./vscode-lldb'']"

definition paths_vscodePhpDebug :: "string \<Rightarrow> string \<Rightarrow> string" where
  "paths_vscodePhpDebug cwd root = path_resolve cwd [root, ''./vscode-php-debug'']"

fun mountsPerImage :: "string \<Rightarrow> DockerImage \<Rightarrow> DockerMount list" where
  "mountsPerImage cwd lldb_debugger =
     [\<lparr>type = None, source = paths_vscodeLldb cwd (selfRoot cwd),
       target = paths_vscodeLldb cwd dockerRoot, readOnly = None\<rparr>]"
| "mountsPerImage cwd php_debugger =
     [\<lparr>type = None, source = paths_vscodePhpDebug cwd (selfRoot cwd),
       target = paths_vscodePhpDebug cwd dockerRoot, readOnly = None\<rparr>]"
| "mountsPerImage cwd python_debugger = []"

section \<open>The command assembler \<^verbatim>\<open>dockerRunCommand\<close>\<close>

text \<open>
  The three object literals that \<^verbatim>\<open>dockerRunCommand\<close> passes to
  \<^verbatim>\<open>toDockerMountArgs\<close>, after the mounts of the image:
  \<^verbatim>\<open>
  { source: paths.output(paths.selfRoot), target: paths.output(paths.dockerRoot) }
  { source: paths.nodeModules(paths.selfRoot), target: paths.nodeModules(paths.dockerRoot) }
  { source: path.resolve(paths.selfRoot, projectPath),
    target: path.resolve(paths.dockerRoot, projectPath) }
  \<close>
\<close>

definition outputMount :: "string \<Rightarrow> DockerMount" where
  "outputMount cwd =
     \<lparr>type = None, source = paths_output cwd (selfRoot cwd),
      target = paths_output cwd dockerRoot, readOnly = None\<rparr>"

definition nodeModulesMount :: "string \<Rightarrow> DockerMount" where
  "nodeModulesMount cwd =
     \<lparr>type = None, source = paths_nodeModules cwd (selfRoot cwd),
      target = paths_nodeModules cwd dockerRoot, readOnly = None\<rparr>"

definition projectMount :: "string \<Rightarrow> string \<Rightarrow> DockerMount" where
  "projectMount cwd projectPath =
     \<lparr>type = None, source = path_resolve cwd [selfRoot cwd, projectPath],
      target = path_resolve cwd [dockerRoot, projectPath], readOnly = None\<rparr>"

text \<open>
  \<^verbatim>\<open>
  const projectPath = path.dirname(mainFilePath)
  const command = 'docker'
  const args = [
    'run', '-it', '--rm', '--env', `LOG_LEVEL=${logLevel}`,
    ...mountsPerImage[docker.image].flatMap(toDockerMountArgs),
    ...toDockerMountArgs({ ... }), ...toDockerMountArgs({ ... }), ...toDockerMountArgs({ ... }),
    docker.image,
    mainFilePath,
  ].filter(Boolean)
  return { command, args }
  \<close>
\<close>

record launch =
  command :: string
  args :: "string list"

definition dockerRunCommand ::
  "string \<Rightarrow> DockerRunConfig \<Rightarrow> string \<Rightarrow> string \<Rightarrow> launch" where
  "dockerRunCommand cwd docker mainFilePath logLevel =
     (let projectPath = dirname mainFilePath;
          command = ''docker'';
          args = filter (\<lambda>a. Boolean (JString a))
                   ([''run'', ''-it'', ''--rm'', ''--env'', ''LOG_LEVEL='' @ logLevel]
                    @ concat (map toDockerMountArgs (mountsPerImage cwd (image docker)))
                    @ toDockerMountArgs (outputMount cwd)
                    @ toDockerMountArgs (nodeModulesMount cwd)
                    @ toDockerMountArgs (projectMount cwd projectPath)
                    @ [image_name (image docker), mainFilePath])
      in \<lparr>command = command, args = args\<rparr>)"

section \<open>\<^verbatim>\<open>callScript\<close>\<close>

text \<open>
  A call of \<^verbatim>\<open>callScript\<close> either throws an \<^verbatim>\<open>Error\<close> with a message, or logs the
  command, starts it with \<^verbatim>\<open>cp.spawnSync\<close> and awaits the promise \<^verbatim>\<open>json\<close>. The model
  returns the effects in the order they happen, and the outcome of the call: the error
  thrown, the text returned, or \<open>Hangs\<close> when the promise is still pending after the
  events that the listeners received, so that the \<^verbatim>\<open>await\<close> does not return. The
  function is \<^verbatim>\<open>async\<close>: what it throws or returns settles the promise its caller
  gets. The level is \<open>None\<close> when the caller leaves the argument out, and the default
  \<^verbatim>\<open>'off'\<close> applies; the type \<^verbatim>\<open>LoggerLevel\<close> is declared outside
  \<^verbatim>\<open>call-script.mjs\<close>, and the model takes any string as a level.
  \<^verbatim>\<open>
  const fileExtension = path.extname(mainFilePath)
  const docker = dockerRunConfigs[fileExtension]
  if (!docker) throw new Error(`Unknown extension "${fileExtension}". Accepted: "${
    Object.keys(dockerRunConfigs).join('", "')}"`)
  const { command, args } = dockerRunCommand(docker, mainFilePath, logLevel)
  const json = new Promise(...)
  console.info('command\n', [command, ...args].join(' \\\n  '))
  cp.spawnSync(command, args, { stdio: 'inherit' })
  const rawJSON = await json
  return rawJSON
  \<close>
\<close>

datatype outcome = Throws error | Returns string | Hangs

fun await :: "promise \<Rightarrow> outcome" where
  "await Pending = Hangs"
| "await (Fulfilled v) = Returns v"
| "await (Rejected e) = Throws e"

definition callScript ::
  "string \<Rightarrow> string \<Rightarrow> string option \<Rightarrow> event list \<Rightarrow> effect list \<times> outcome" where
  \<open>callScript cwd mainFilePath logLevel_arg events =
     (let logLevel = (case logLevel_arg of None \<Rightarrow> ''off'' | Some l \<Rightarrow> l);
          fileExtension = extname mainFilePath
      in case map_of dockerRunConfigs fileExtension of
           None \<Rightarrow>
             ([], Throws (Error (''Unknown extension "'' @ fileExtension @ ''". Accepted: "''
                                 @ join ''", "'' (map JString (map fst dockerRunConfigs))
                                 @ ''"'')))
         | Some docker \<Rightarrow>
             (let plan = dockerRunCommand cwd docker mainFilePath logLevel;
                  s = run initial events
              in ([ConsoleInfo [''command\<newline>'',
                                join ('' '' @ [CHR 0x5C] @ ''\<newline>  '')
                                  (map JString (command plan # args plan))],
                   SpawnSync (command plan) (args plan)] @ console s,
                  await (json s))))\<close>

text \<open>
  \<^verbatim>\<open>export async function callScript(mainFilePath, logLevel = 'off')\<close>: the function
  is declared \<^verbatim>\<open>async\<close>. A call runs the body up to its first \<^verbatim>\<open>await\<close> and then
  completes normally with a promise; it never completes by throwing to its caller. When
  the body throws before its first \<^verbatim>\<open>await\<close>, the promise is already rejected when
  the call returns; when the body reaches \<^verbatim>\<open>await json\<close>, the promise is pending when
  the call returns, and what the body later returns or throws settles it.
  \<open>callScript_call\<close> is the call as its caller sees it, with the effects that have
  happened when it returns (no event has been delivered yet); \<open>callScript_promise\<close> is
  the returned promise after the events.
\<close>

datatype completion = Throw error | Return promise

fun settle :: "outcome \<Rightarrow> promise" where
  "settle (Throws e) = Rejected e"
| "settle (Returns v) = Fulfilled v"
| "settle Hangs = Pending"

definition callScript_call ::
  "string \<Rightarrow> string \<Rightarrow> string option \<Rightarrow> effect list \<times> completion" where
  "callScript_call cwd mainFilePath logLevel_arg =
     (let (effects, result) = callScript cwd mainFilePath logLevel_arg []
      in (effects, Return (settle result)))"

definition callScript_promise ::
  "string \<Rightarrow> string \<Rightarrow> string option \<Rightarrow> event list \<Rightarrow> promise" where
  "callScript_promise cwd mainFilePath logLevel_arg events =
     settle (snd (callScript cwd mainFilePath logLevel_arg events))"

section \<open>Properties of the string operations\<close>

lemma indexOf_from_found: "indexOf_from s sub k \<noteq> - 1 \<longleftrightarrow> sublist sub s"
  by (induction s arbitrary: k) (auto simp: sublist_Cons_right)

lemma includes_str_sublist: "includes_str s sub \<longleftrightarrow> sublist sub s"
  by (simp add: includes_str_def indexOf_def indexOf_from_found)

lemma indexOf_from_first:
  "first_at s sub n \<Longrightarrow> indexOf_from s sub k = int (k + n)"
proof (induction s arbitrary: k n)
  case Nil
  then show ?case by (auto simp: first_at_def)
next
  case (Cons c cs)
  show ?case
  proof (cases n)
    case 0
    with Cons.prems show ?thesis by (simp add: first_at_def)
  next
    case (Suc m)
    from Cons.prems Suc have np: "\<not> prefix sub (c # cs)"
      by (auto simp: first_at_def dest: spec [of _ 0])
    have "first_at cs sub m"
      unfolding first_at_def
    proof (intro conjI allI impI)
      show "m \<le> length cs" using Cons.prems Suc by (simp add: first_at_def)
      show "prefix sub (drop m cs)" using Cons.prems Suc by (simp add: first_at_def)
      fix j assume "j < m"
      then have "Suc j < n" using Suc by simp
      with Cons.prems have "\<not> prefix sub (drop (Suc j) (c # cs))"
        unfolding first_at_def by blast
      then show "\<not> prefix sub (drop j cs)" by simp
    qed
    from Cons.IH [OF this, of "Suc k"] np Suc show ?thesis by simp
  qed
qed

lemma indexOf_first: "first_at s sub n \<Longrightarrow> indexOf s sub = int n"
  using indexOf_from_first [of s sub n 0] by (simp add: indexOf_def)

lemma first_at_includes: "first_at s sub n \<Longrightarrow> includes_str s sub"
  using indexOf_first [of s sub n] by (simp add: includes_str_def)

lemma slice1_nat: "slice1 s (int n) = drop n s"
  by (simp add: slice1_def slice_def Let_def min_def)

lemma slice_0_nat: "slice s 0 (int n) = take n s"
  by (simp add: slice_def Let_def min_def)

lemma slice_sublist: "sublist (slice s i j) s"
proof -
  have "sublist (take n (drop k s)) s" for n k
    using sublist_take [of n "drop k s"] sublist_drop [of k s]
    by (rule sublist_order.order_trans)
  then show ?thesis by (simp add: slice_def Let_def)
qed

lemma includes_slice1: "includes_str (slice1 s i) sub \<Longrightarrow> includes_str s sub"
  unfolding includes_str_sublist slice1_def
  using slice_sublist sublist_order.order_trans by blast

section \<open>Properties of the result extractor\<close>

lemma onData_neither:
  "\<not> includes_str d begin_sentinel \<Longrightarrow> \<not> includes_str d end_sentinel \<Longrightarrow> onData s d = s"
  by (simp add: onData_def)

lemma onData_no_end:
  assumes "\<not> includes_str d end_sentinel"
  shows "json (onData s d) = json s" and "listening (onData s d) = listening s"
proof -
  have "\<not> includes_str (slice1 d i) end_sentinel" for i
    using assms includes_slice1 by blast
  then show "json (onData s d) = json s" and "listening (onData s d) = listening s"
    using assms by (simp_all add: onData_def Let_def)
qed

text \<open>
  A chunk that holds the begin sentinel and, after it, the end sentinel: the text between
  the first begin sentinel and the first end sentinel that follows it is \<open>m\<close>.
\<close>

lemma onData_both:
  assumes c: "c = a @ begin_sentinel @ m @ end_sentinel @ z"
    and b: "first_at c begin_sentinel (length a)"
    and e: "first_at (m @ end_sentinel @ z) end_sentinel (length m)"
  shows "onData s c = off (resolve (trim (raw s @ m)) s)"
proof -
  have ib: "includes_str c begin_sentinel" using b by (rule first_at_includes)
  have xb: "indexOf c begin_sentinel = int (length a)" using b by (rule indexOf_first)
  have rest: "slice1 c (indexOf c begin_sentinel + int (length begin_sentinel))
      = m @ end_sentinel @ z"
  proof -
    have "indexOf c begin_sentinel + int (length begin_sentinel)
        = int (length a + length begin_sentinel)"
      using xb by simp
    then have "slice1 c (indexOf c begin_sentinel + int (length begin_sentinel))
        = drop (length a + length begin_sentinel) c"
      by (simp only: slice1_nat)
    also have "\<dots> = m @ end_sentinel @ z" using c by simp
    finally show ?thesis .
  qed
  have ie: "includes_str (m @ end_sentinel @ z) end_sentinel"
    using e by (rule first_at_includes)
  have xe: "indexOf (m @ end_sentinel @ z) end_sentinel = int (length m)"
    using e by (rule indexOf_first)
  have mid: "slice (m @ end_sentinel @ z) 0 (indexOf (m @ end_sentinel @ z) end_sentinel) = m"
    by (simp only: xe slice_0_nat) simp
  show ?thesis
    by (simp add: onData_def ib rest ie mid Let_def)
qed

lemma on_event_settled: "json s \<noteq> Pending \<Longrightarrow> json (on_event s e) = json s"
  by (cases e; cases "json s")
     (auto simp: onData_def Let_def resolve_def reject_def off_def split: if_splits)

lemma run_settled: "json s \<noteq> Pending \<Longrightarrow> json (run s evs) = json s"
  unfolding run_def by (induction evs arbitrary: s) (simp_all add: on_event_settled)

lemma run_append: "run s (xs @ ys) = run (run s xs) ys"
  by (simp add: run_def)

lemma run_neither:
  "\<forall>p\<in>set pre. \<not> includes_str p begin_sentinel \<and> \<not> includes_str p end_sentinel \<Longrightarrow>
   run s (map Data pre) = s"
  unfolding run_def by (induction pre arbitrary: s) (simp_all add: onData_neither)

lemma run_no_end:
  "\<forall>c\<in>set chunks. \<not> includes_str c end_sentinel \<Longrightarrow>
   json (run s (map Data chunks)) = json s \<and>
   listening (run s (map Data chunks)) = listening s"
  unfolding run_def by (induction chunks arbitrary: s) (simp_all add: onData_no_end)

text \<open>
  C1. Between the sentinels, a chunk that holds neither of them should be appended to the
  buffer, so that the chunks \<open>RESULT_BEGIN\<close>, \<open>partial-data-\<close>, \<open>more-data\<close>,
  \<open>RESULT_END\<close> give \<open>partial-data-more-data\<close>. The handler appends to \<open>raw\<close> only
  in the branch of a chunk that holds the begin sentinel: on these four chunks it leaves
  the buffer empty and fulfils the promise with the empty string.
\<close>

theorem middle_chunks_are_dropped:
  "run initial (map Data [''RESULT_BEGIN'', ''partial-data-'', ''more-data'', ''RESULT_END''])
     = \<lparr>raw = '''', json = Fulfilled '''', listening = False, console = []\<rparr>
   \<and> run initial (map Data [''RESULT_BEGIN'', ''partial-data-''])
     = \<lparr>raw = '''', json = Pending, listening = True, console = []\<rparr>"
  by code_simp

text \<open>
  C2, as stated: a chunk that arrives before the begin sentinel and does not hold it
  leaves the extractor unchanged. It fails for a chunk that holds the end sentinel: the
  first chunk \<open>xRESULT_END\<close> fulfils the promise with \<open>x\<close>.
\<close>

theorem end_before_begin_resolves:
  "\<not> includes_str ''xRESULT_END'' begin_sentinel
   \<and> run initial [Data ''xRESULT_END'']
       = \<lparr>raw = '''', json = Fulfilled ''x'', listening = False, console = []\<rparr>
   \<and> run initial [Data ''xRESULT_END''] \<noteq> initial"
  by code_simp

text \<open>
  C2, amended: a chunk that arrives before any chunk held the begin sentinel, and that
  holds neither the begin nor the end sentinel, leaves the whole state of the extractor
  (buffer, promise, registration of the listener) unchanged.
\<close>

theorem chunk_before_begin_is_ignored:
  assumes "\<forall>p\<in>set pre. \<not> includes_str p begin_sentinel"
    and "\<not> includes_str c begin_sentinel"
    and "\<not> includes_str c end_sentinel"
  shows "run initial (map Data (pre @ [c])) = run initial (map Data pre)"
  using assms(2,3) by (simp add: run_append) (simp add: run_def onData_neither)

theorem chunk_before_begin_is_ignored_witness:
  "\<not> includes_str ''starting'' begin_sentinel
   \<and> \<not> includes_str ''(lldb) step'' begin_sentinel
   \<and> \<not> includes_str ''(lldb) step'' end_sentinel
   \<and> run initial (map Data ([''starting''] @ [''(lldb) step'']))
       = run initial (map Data [''starting''])
   \<and> run initial (map Data [''starting'']) = initial"
proof -
  have h1: "\<forall>p\<in>set [''starting'']. \<not> includes_str p begin_sentinel" by code_simp
  have h2: "\<not> includes_str ''(lldb) step'' begin_sentinel" by code_simp
  have h3: "\<not> includes_str ''(lldb) step'' end_sentinel" by code_simp
  have h4: "run initial (map Data [''starting'']) = initial" by code_simp
  from chunk_before_begin_is_ignored [OF h1 h2 h3] h1 h2 h3 h4 show ?thesis by simp
qed

text \<open>
  C5, as stated: a chunk that holds both sentinels resolves to the text between them,
  whatever arrived before the begin sentinel. It fails when an earlier chunk held the
  end sentinel: the promise is then already fulfilled, with text that arrived before
  the begin sentinel, and the listener is gone.
\<close>

theorem earlier_end_wins:
  "\<not> includes_str ''noise RESULT_END'' begin_sentinel
   \<and> run initial (map Data [''noise RESULT_END'', ''RESULT_BEGIN{\"a\":1}RESULT_END trailing''])
       = \<lparr>raw = '''', json = Fulfilled ''noise'', listening = False, console = []\<rparr>
   \<and> Fulfilled ''noise'' \<noteq> Fulfilled ''{\"a\":1}''"
  by code_simp

text \<open>
  C5, amended: when no earlier chunk held a sentinel and a chunk holds the begin sentinel
  followed by the end sentinel, the promise is fulfilled on that chunk with the trimmed
  text \<open>m\<close> between the first begin sentinel and the first end sentinel after it; the
  buffer is still empty, the listener is removed, and no later event changes the value.
\<close>

theorem both_sentinels_in_one_chunk:
  assumes "\<forall>p\<in>set pre. \<not> includes_str p begin_sentinel \<and> \<not> includes_str p end_sentinel"
    and "c = a @ begin_sentinel @ m @ end_sentinel @ z"
    and "first_at c begin_sentinel (length a)"
    and "first_at (m @ end_sentinel @ z) end_sentinel (length m)"
  shows "run initial (map Data (pre @ [c]))
           = \<lparr>raw = '''', json = Fulfilled (trim m), listening = False, console = []\<rparr>
         \<and> json (run initial (map Data (pre @ [c]) @ later)) = Fulfilled (trim m)"
proof -
  have pre: "run initial (map Data pre) = initial"
    using assms(1) by (rule run_neither)
  have "run initial (map Data (pre @ [c])) = on_event initial (Data c)"
    by (simp add: run_append pre) (simp add: run_def)
  also have "\<dots> = onData initial c" by (simp add: initial_def)
  also have "\<dots> = off (resolve (trim (raw initial @ m)) initial)"
    using assms(2,3,4) by (rule onData_both)
  also have "\<dots> = \<lparr>raw = '''', json = Fulfilled (trim m), listening = False, console = []\<rparr>"
    by (simp add: initial_def resolve_def off_def)
  finally have now: "run initial (map Data (pre @ [c]))
      = \<lparr>raw = '''', json = Fulfilled (trim m), listening = False, console = []\<rparr>" .
  have "json (run (run initial (map Data (pre @ [c]))) later) = Fulfilled (trim m)"
    by (subst now) (simp add: run_settled)
  then show ?thesis using now by (simp only: run_append)
qed

theorem both_sentinels_in_one_chunk_witness:
  "run initial (map Data [''noise '', ''RESULT_BEGIN{\"a\":1}RESULT_END trailing''])
     = \<lparr>raw = '''', json = Fulfilled ''{\"a\":1}'', listening = False, console = []\<rparr>
   \<and> json (run initial (map Data [''noise '', ''RESULT_BEGIN{\"a\":1}RESULT_END trailing'']
             @ [Data ''RESULT_BEGIN again RESULT_END'', ProcessError (Error ''late'')]))
       = Fulfilled ''{\"a\":1}''"
proof -
  have h1: "\<forall>p\<in>set [''noise ''].
      \<not> includes_str p begin_sentinel \<and> \<not> includes_str p end_sentinel"
    by code_simp
  have h2: "''RESULT_BEGIN{\"a\":1}RESULT_END trailing''
      = '''' @ begin_sentinel @ ''{\"a\":1}'' @ end_sentinel @ '' trailing''"
    by (simp add: begin_sentinel_def end_sentinel_def)
  have h3: "first_at ''RESULT_BEGIN{\"a\":1}RESULT_END trailing'' begin_sentinel (length '''')"
    by code_simp
  have h4: "first_at (''{\"a\":1}'' @ end_sentinel @ '' trailing'') end_sentinel
      (length ''{\"a\":1}'')"
    by code_simp
  have t: "trim ''{\"a\":1}'' = ''{\"a\":1}''" by code_simp
  from both_sentinels_in_one_chunk [OF h1 h2 h3 h4,
      of "[Data ''RESULT_BEGIN again RESULT_END'', ProcessError (Error ''late'')]"]
  show ?thesis by (simp add: t)
qed

text \<open>
  C6: when no chunk holds the end sentinel, the promise is pending after every prefix of
  the chunk sequence, and the listener stays registered: the extractor never resolves.
\<close>

theorem no_end_sentinel_never_resolves:
  assumes "\<forall>c\<in>set chunks. \<not> includes_str c end_sentinel"
  shows "json (run initial (map Data (take n chunks))) = Pending
         \<and> listening (run initial (map Data (take n chunks)))"
proof -
  have "\<forall>c\<in>set (take n chunks). \<not> includes_str c end_sentinel"
    using assms by (meson in_set_takeD)
  from run_no_end [OF this, of initial] show ?thesis by (simp add: initial_def)
qed

theorem no_end_sentinel_never_resolves_witness:
  "\<not> includes_str ''RESULT_BEGIN{'' end_sentinel
   \<and> \<not> includes_str ''\"a\":1}'' end_sentinel
   \<and> json (run initial (map Data (take 2 [''RESULT_BEGIN{'', ''\"a\":1}'']))) = Pending
   \<and> listening (run initial (map Data (take 2 [''RESULT_BEGIN{'', ''\"a\":1}''])))"
proof -
  have h: "\<forall>c\<in>set [''RESULT_BEGIN{'', ''\"a\":1}'']. \<not> includes_str c end_sentinel"
    by code_simp
  from no_end_sentinel_never_resolves [OF h, of 2] h show ?thesis by simp
qed

section \<open>Properties of the mount serialization\<close>

lemma toDockerMountArgs_plain:
  "readOnly m \<noteq> Some True \<Longrightarrow>
   toDockerMountArgs m =
     [''--mount'',
      ''type='' @ mount_type_name (case type m of None \<Rightarrow> bind | Some t \<Rightarrow> t)
        @ '',source='' @ source m @ '',target='' @ target m]"
  by (cases "readOnly m") (auto simp: toDockerMountArgs_def Let_def js_and_def)

lemma toDockerMountArgs_readonly:
  "readOnly m = Some True \<Longrightarrow>
   toDockerMountArgs m =
     [''--mount'',
      ''type='' @ mount_type_name (case type m of None \<Rightarrow> bind | Some t \<Rightarrow> t)
        @ '',source='' @ source m @ '',target='' @ target m @ '',readonly'']"
  by (auto simp: toDockerMountArgs_def Let_def js_and_def)

lemma toDockerMountArgs_nonempty: "'''' \<notin> set (toDockerMountArgs m)"
  by (cases "readOnly m = Some True")
     (simp_all add: toDockerMountArgs_plain toDockerMountArgs_readonly)

text \<open>
  C7: the mount with source \<open>/a\<close>, target \<open>/b\<close> and \<open>readOnly\<close> true gives the value
  \<open>type=bind,source=/a,target=/b,readonly\<close>; a mount whose \<open>readOnly\<close> is false or absent
  gives the three segments for type, source and target and nothing after the target:
  no \<open>readonly\<close> token and no empty segment.
\<close>

theorem mount_flag_serialization:
  "toDockerMountArgs \<lparr>type = None, source = ''/a'', target = ''/b'', readOnly = Some True\<rparr>
     = [''--mount'', ''type=bind,source=/a,target=/b,readonly'']
   \<and> (readOnly m = Some False \<or> readOnly m = None \<longrightarrow>
        toDockerMountArgs m
          = [''--mount'', ''type=bind,source='' @ source m @ '',target='' @ target m])"
proof -
  have n: "mount_type_name t = ''bind''" for t by (cases t) simp
  show ?thesis
    by (auto simp: toDockerMountArgs_readonly toDockerMountArgs_plain n)
qed

theorem mount_flag_serialization_witness:
  "toDockerMountArgs \<lparr>type = None, source = ''/a'', target = ''/b'', readOnly = Some False\<rparr>
     = [''--mount'', ''type=bind,source=/a,target=/b'']
   \<and> toDockerMountArgs \<lparr>type = Some bind, source = ''/a'', target = ''/b'', readOnly = None\<rparr>
     = [''--mount'', ''type=bind,source=/a,target=/b'']"
  using mount_flag_serialization
          [of "\<lparr>type = None, source = ''/a'', target = ''/b'', readOnly = Some False\<rparr>"]
        mount_flag_serialization
          [of "\<lparr>type = Some bind, source = ''/a'', target = ''/b'', readOnly = None\<rparr>"]
  by simp

section \<open>Properties of the path functions\<close>

lemma dirname_loop_range:
  "dirname_loop path j m = - 1 \<or> (1 \<le> dirname_loop path j m \<and> dirname_loop path j m \<le> int j)"
  by (induction path j m rule: dirname_loop.induct) auto

text \<open>The directory of an absolute path is absolute.\<close>

lemma dirname_absolute:
  assumes "path \<noteq> []" and "path ! 0 = CHR ''/''"
  shows "dirname path \<noteq> [] \<and> dirname path ! 0 = CHR ''/''"
proof -
  let ?e = "dirname_loop path (length path - 1) True"
  from dirname_loop_range [of path "length path - 1" True]
  consider "?e = - 1" | "1 \<le> ?e" "?e \<le> int (length path - 1)" by blast
  then show ?thesis
  proof cases
    case 1
    then show ?thesis using assms by (simp add: dirname_def)
  next
    case 2
    then obtain k where k: "?e = int k" "1 \<le> k" "k \<le> length path - 1"
      by (metis nat_0_le nat_int of_nat_1 order_trans zero_le_one nat_le_iff)
    then have "slice path 0 ?e = take k path" by (simp add: slice_0_nat)
    moreover have "take k path \<noteq> []" "take k path ! 0 = path ! 0"
      using k assms by auto
    ultimately show ?thesis using assms k by (auto simp: dirname_def Let_def)
  qed
qed

text \<open>An absolute last argument decides the result of \<open>path_resolve\<close> alone.\<close>

lemma path_resolve_absolute:
  assumes "d \<noteq> []" and "d ! 0 = CHR ''/''"
  shows "path_resolve cwd [root, d] = ''/'' @ normalizeString (d @ ''/'') False"
  using assms by (simp add: path_resolve_def)

lemma docker_targets:
  "path_resolve cwd [dockerRoot, ''./out''] = ''/usr/project/out''"
  "path_resolve cwd [dockerRoot, ''./node_modules''] = ''/usr/project/node_modules''"
  "path_resolve cwd [dockerRoot, ''./vscode-lldb''] = ''/usr/project/vscode-lldb''"
  "path_resolve cwd [dockerRoot, ''./vscode-php-debug''] = ''/usr/project/vscode-php-debug''"
  by code_simp+

lemma extname_Nil: "extname [] = []"
  by (simp add: extname_def)

lemma rev_take_Suc: "i < length p \<Longrightarrow> rev (take (Suc i) p) = p ! i # rev (take i p)"
  by (simp add: take_Suc_conv_app_nth)

text \<open>
  The scan of \<open>extname\<close> inside the last component: it stops at the separator before
  the component, and it finds no dot when the component has none.
\<close>

lemma extname_loop_segment:
  "n \<le> length p \<Longrightarrow> \<not> matchedSlash st \<Longrightarrow> startDot st = - 1 \<Longrightarrow>
   CHR ''.'' \<notin> set (takeWhile (\<lambda>c. c \<noteq> CHR ''/'') (rev (take n p))) \<Longrightarrow>
   startDot (extname_loop p n st) = - 1"
proof (induction n arbitrary: st)
  case 0
  then show ?case by simp
next
  case (Suc i)
  then have i: "i < length p" by simp
  show ?case
  proof (cases "p ! i = CHR ''/''")
    case True
    with Suc.prems show ?thesis by simp
  next
    case False
    with Suc.prems i have nd: "p ! i \<noteq> CHR ''.''"
      and rest: "CHR ''.'' \<notin> set (takeWhile (\<lambda>c. c \<noteq> CHR ''/'') (rev (take i p)))"
      by (auto simp: rev_take_Suc)
    let ?st = "if end_idx st = - 1 then st\<lparr>end_idx := int i + 1, matchedSlash := False\<rparr> else st"
    have "startDot (extname_loop p i ?st) = - 1"
      using Suc.prems i rest by (intro Suc.IH) auto
    then show ?thesis using False nd Suc.prems(3) by (simp add: Let_def)
  qed
qed

text \<open>The scan over the separators that end the path, before the last component.\<close>

lemma extname_loop_trailing:
  "n \<le> length p \<Longrightarrow> matchedSlash st \<Longrightarrow> end_idx st = - 1 \<Longrightarrow> startDot st = - 1 \<Longrightarrow>
   CHR ''.'' \<notin> set (takeWhile (\<lambda>c. c \<noteq> CHR ''/'')
                    (dropWhile (\<lambda>c. c = CHR ''/'') (rev (take n p)))) \<Longrightarrow>
   startDot (extname_loop p n st) = - 1"
proof (induction n arbitrary: st)
  case 0
  then show ?case by simp
next
  case (Suc i)
  then have i: "i < length p" by simp
  show ?case
  proof (cases "p ! i = CHR ''/''")
    case True
    with Suc.prems i
    have "CHR ''.'' \<notin> set (takeWhile (\<lambda>c. c \<noteq> CHR ''/'')
                    (dropWhile (\<lambda>c. c = CHR ''/'') (rev (take i p))))"
      by (simp add: rev_take_Suc)
    with Suc.prems i have "startDot (extname_loop p i st) = - 1"
      by (intro Suc.IH) auto
    with True Suc.prems(2) show ?thesis by simp
  next
    case False
    with Suc.prems i have nd: "p ! i \<noteq> CHR ''.''"
      and rest: "CHR ''.'' \<notin> set (takeWhile (\<lambda>c. c \<noteq> CHR ''/'') (rev (take i p)))"
      by (auto simp: rev_take_Suc)
    let ?st = "st\<lparr>end_idx := int i + 1, matchedSlash := False\<rparr>"
    have "startDot (extname_loop p i ?st) = - 1"
      using Suc.prems i rest by (intro extname_loop_segment) auto
    then show ?thesis using False nd Suc.prems(3,4) by (simp add: Let_def)
  qed
qed

lemma extname_no_dot:
  assumes "CHR ''.'' \<notin> set (last_component p)"
  shows "extname p = []"
proof -
  have "startDot (extname_loop p (length p)
          \<lparr>startDot = - 1, startPart = 0, end_idx = - 1, matchedSlash = True,
           preDotState = 0\<rparr>) = - 1"
    using assms by (intro extname_loop_trailing) (simp_all add: last_component_def)
  then show ?thesis by (simp add: extname_def Let_def)
qed

text \<open>
  The result of \<open>extname\<close> is empty or starts with a dot. The lookup
  \<^verbatim>\<open>dockerRunConfigs[fileExtension]\<close> therefore never reaches a property that the object
  literal inherits (\<^verbatim>\<open>constructor\<close>, \<^verbatim>\<open>toString\<close>, \<^verbatim>\<open>__proto__\<close> and the like, none of
  which is empty or starts with a dot): it is decided by the four entries of the table.
\<close>

lemma extname_loop_shape:
  "n \<le> length p \<Longrightarrow> ext_inv p st \<Longrightarrow> end_idx st = - 1 \<or> int n < end_idx st \<Longrightarrow>
   ext_inv p (extname_loop p n st)"
proof (induction n arbitrary: st)
  case 0
  then show ?case by simp
next
  case (Suc i)
  have il: "i \<le> length p" using Suc.prems by simp
  show ?case
  proof (cases "p ! i = CHR ''/''")
    case True
    show ?thesis
    proof (cases "matchedSlash st")
      case True
      have "ext_inv p (extname_loop p i st)"
        using Suc.prems by (intro Suc.IH il) auto
      with True \<open>p ! i = CHR ''/''\<close> show ?thesis by simp
    next
      case False
      have "ext_inv p (st\<lparr>startPart := int i + 1\<rparr>)"
        using Suc.prems(2) by (simp add: ext_inv_def)
      with False \<open>p ! i = CHR ''/''\<close> show ?thesis by simp
    qed
  next
    case False
    define a where "a = (if end_idx st = - 1
        then st\<lparr>end_idx := int i + 1, matchedSlash := False\<rparr> else st)"
    define b where "b = (if p ! i = CHR ''.'' then
                (if startDot a = - 1 then a\<lparr>startDot := int i\<rparr>
                 else if preDotState a \<noteq> 1 then a\<lparr>preDotState := 1\<rparr> else a)
              else if startDot a \<noteq> - 1 then a\<lparr>preDotState := - 1\<rparr> else a)"
    have step: "extname_loop p (Suc i) st = extname_loop p i b"
      using False by (simp add: a_def b_def Let_def)
    have ea: "end_idx a = - 1 \<or> int i < end_idx a" "end_idx a \<noteq> - 1"
      using Suc.prems(3) by (auto simp: a_def)
    have ia: "ext_inv p a"
      using Suc.prems by (auto simp: a_def ext_inv_def)
    have eb: "end_idx b = end_idx a"
      by (simp add: b_def)
    have ib: "ext_inv p b"
      using ia ea by (auto simp: b_def ext_inv_def)
    have "ext_inv p (extname_loop p i b)"
      using ib ea eb by (intro Suc.IH il) auto
    then show ?thesis by (simp only: step)
  qed
qed


lemma extname_shape: "extname p = [] \<or> hd (extname p) = CHR ''.''"
proof -
  define s where "s = extname_loop p (length p)
     \<lparr>startDot = - 1, startPart = 0, end_idx = - 1, matchedSlash = True, preDotState = 0\<rparr>"
  have "ext_inv p s"
    unfolding s_def by (rule extname_loop_shape) (simp_all add: ext_inv_def)
  then have inv: "end_idx s = - 1 \<or> end_idx s \<le> int (length p)"
    "startDot s = - 1 \<or> (0 \<le> startDot s \<and> startDot s < end_idx s \<and>
         p ! nat (startDot s) = CHR ''.'')"
    by (simp_all add: ext_inv_def)
  show ?thesis
  proof (cases "startDot s = - 1 \<or> end_idx s = - 1")
    case True
    then show ?thesis by (auto simp: extname_def Let_def s_def [symmetric])
  next
    case False
    define a where "a = nat (startDot s)"
    define b where "b = nat (end_idx s)"
    from False inv have ab: "startDot s = int a" "end_idx s = int b" "a < b" "b \<le> length p"
      "p ! a = CHR ''.''"
      by (auto simp: a_def b_def)
    have n: "nat (int b - int a) = b - a" by linarith
    have "slice p (int a) (int b) = take (b - a) (drop a p)"
      using ab n by (simp add: slice_def Let_def min_def)
    moreover have "hd (take (b - a) (drop a p)) = p ! a"
      using ab by (simp add: hd_drop_conv_nth)
    ultimately have "hd (slice p (startDot s) (end_idx s)) = CHR ''.''"
      using ab by simp
    then show ?thesis by (auto simp: extname_def Let_def s_def [symmetric])
  qed
qed

section \<open>Properties of the command assembler\<close>

lemma image_name_nonempty: "image_name i \<noteq> []"
  by (cases i) simp_all

lemma filter_truthy_id: "'''' \<notin> set xs \<Longrightarrow> filter (\<lambda>a. Boolean (JString a)) xs = xs"
  by (induction xs) auto

lemma mounts_flags:
  "concat (map toDockerMountArgs (mountsPerImage cwd i)) =
     (case i of
        lldb_debugger \<Rightarrow>
          [''--mount'', ''type=bind,source='' @ path_resolve cwd [cwd, ''./vscode-lldb'']
                        @ '',target=/usr/project/vscode-lldb'']
      | php_debugger \<Rightarrow>
          [''--mount'', ''type=bind,source='' @ path_resolve cwd [cwd, ''./vscode-php-debug'']
                        @ '',target=/usr/project/vscode-php-debug'']
      | python_debugger \<Rightarrow> [])"
  by (cases i)
     (simp_all add: toDockerMountArgs_plain paths_vscodeLldb_def paths_vscodePhpDebug_def
        selfRoot_def docker_targets)

lemma fixed_mount_flags:
  "toDockerMountArgs (outputMount cwd) =
     [''--mount'', ''type=bind,source='' @ path_resolve cwd [cwd, ''./out'']
                   @ '',target=/usr/project/out'']"
  "toDockerMountArgs (nodeModulesMount cwd) =
     [''--mount'', ''type=bind,source='' @ path_resolve cwd [cwd, ''./node_modules'']
                   @ '',target=/usr/project/node_modules'']"
  "toDockerMountArgs (projectMount cwd d) =
     [''--mount'', ''type=bind,source='' @ path_resolve cwd [cwd, d]
                   @ '',target='' @ path_resolve cwd [''/usr/project'', d]]"
  by (simp_all add: toDockerMountArgs_plain outputMount_def nodeModulesMount_def
        projectMount_def paths_output_def paths_nodeModules_def selfRoot_def docker_targets)
     (simp add: dockerRoot_def)

text \<open>For a main-file path that is not empty, the final filter removes nothing.\<close>

lemma dockerRunCommand_args:
  assumes "mainFilePath \<noteq> []"
  shows "args (dockerRunCommand cwd docker mainFilePath logLevel) =
     [''run'', ''-it'', ''--rm'', ''--env'', ''LOG_LEVEL='' @ logLevel]
     @ concat (map toDockerMountArgs (mountsPerImage cwd (image docker)))
     @ toDockerMountArgs (outputMount cwd)
     @ toDockerMountArgs (nodeModulesMount cwd)
     @ toDockerMountArgs (projectMount cwd (dirname mainFilePath))
     @ [image_name (image docker), mainFilePath]"
proof -
  have "'''' \<notin> set ([''run'', ''-it'', ''--rm'', ''--env'', ''LOG_LEVEL='' @ logLevel]
     @ concat (map toDockerMountArgs (mountsPerImage cwd (image docker)))
     @ toDockerMountArgs (outputMount cwd)
     @ toDockerMountArgs (nodeModulesMount cwd)
     @ toDockerMountArgs (projectMount cwd (dirname mainFilePath))
     @ [image_name (image docker), mainFilePath])"
    using assms image_name_nonempty [of "image docker"] toDockerMountArgs_nonempty
    by (auto simp del: image_name.simps)
  from filter_truthy_id [OF this] show ?thesis
    by (simp only: dockerRunCommand_def Let_def launch.simps)
qed

text \<open>
  C3, as stated: the source of the project-directory mount equals its target. It fails
  for a relative main-file path when the working directory is not \<open>/usr/project\<close>: with
  the working directory \<open>/home/user/debuggers\<close> and the path \<open>sources/main.py\<close> the mount
  binds \<open>/home/user/debuggers/sources\<close> to \<open>/usr/project/sources\<close>.
\<close>

theorem relative_project_mount_differs:
  "source (projectMount ''/home/user/debuggers'' (dirname ''sources/main.py''))
     = ''/home/user/debuggers/sources''
   \<and> target (projectMount ''/home/user/debuggers'' (dirname ''sources/main.py''))
     = ''/usr/project/sources''
   \<and> source (projectMount ''/home/user/debuggers'' (dirname ''sources/main.py''))
     \<noteq> target (projectMount ''/home/user/debuggers'' (dirname ''sources/main.py''))
   \<and> args (dockerRunCommand ''/home/user/debuggers'' \<lparr>image = python_debugger\<rparr>
             ''sources/main.py'' ''off'')
     = [''run'', ''-it'', ''--rm'', ''--env'', ''LOG_LEVEL=off'',
        ''--mount'', ''type=bind,source=/home/user/debuggers/out,target=/usr/project/out'',
        ''--mount'',
        ''type=bind,source=/home/user/debuggers/node_modules,target=/usr/project/node_modules'',
        ''--mount'', ''type=bind,source=/home/user/debuggers/sources,target=/usr/project/sources'',
        ''python-debugger'', ''sources/main.py'']"
  by code_simp

text \<open>
  C3, amended: the project-directory mount binds the parent directory of the main file,
  resolved against the working directory of the host, to the same directory resolved
  against \<open>/usr/project\<close> in the sandbox; the source equals the target when the main-file
  path is absolute or the working directory is \<open>/usr/project\<close>.
\<close>

theorem project_mount_source_and_target:
  "source (projectMount cwd (dirname mainFilePath)) = path_resolve cwd [cwd, dirname mainFilePath]
   \<and> target (projectMount cwd (dirname mainFilePath))
       = path_resolve cwd [''/usr/project'', dirname mainFilePath]
   \<and> ((mainFilePath \<noteq> [] \<and> mainFilePath ! 0 = CHR ''/'') \<or> cwd = ''/usr/project'' \<longrightarrow>
        source (projectMount cwd (dirname mainFilePath))
          = target (projectMount cwd (dirname mainFilePath)))"
proof -
  have "path_resolve cwd [cwd, dirname mainFilePath]
      = path_resolve cwd [''/usr/project'', dirname mainFilePath]"
    if "mainFilePath \<noteq> []" "mainFilePath ! 0 = CHR ''/''"
    using dirname_absolute [OF that] by (simp add: path_resolve_absolute)
  then show ?thesis
    by (auto simp: projectMount_def selfRoot_def dockerRoot_def)
qed

theorem project_mount_source_and_target_witness:
  "source (projectMount ''/home/user/debuggers'' (dirname ''/srv/work/demo/main.py''))
     = ''/srv/work/demo''
   \<and> target (projectMount ''/home/user/debuggers'' (dirname ''/srv/work/demo/main.py''))
     = ''/srv/work/demo''
   \<and> source (projectMount ''/usr/project'' (dirname ''sources/main.py''))
     = ''/usr/project/sources''
   \<and> target (projectMount ''/usr/project'' (dirname ''sources/main.py''))
     = ''/usr/project/sources''"
proof -
  have r1: "path_resolve ''/home/user/debuggers''
      [''/home/user/debuggers'', dirname ''/srv/work/demo/main.py''] = ''/srv/work/demo''"
    by code_simp
  have r2: "path_resolve ''/usr/project'' [''/usr/project'', dirname ''sources/main.py'']
      = ''/usr/project/sources''"
    by code_simp
  note a = project_mount_source_and_target
             [of "''/home/user/debuggers''" "''/srv/work/demo/main.py''"]
  note b = project_mount_source_and_target [of "''/usr/project''" "''sources/main.py''"]
  have h1: "(''/srv/work/demo/main.py'' \<noteq> [] \<and> ''/srv/work/demo/main.py'' ! 0 = CHR ''/'')
      \<or> ''/home/user/debuggers'' = ''/usr/project''"
    by simp
  have h2: "(''sources/main.py'' \<noteq> [] \<and> ''sources/main.py'' ! 0 = CHR ''/'')
      \<or> ''/usr/project'' = ''/usr/project''"
    by simp
  note s1 = a [THEN conjunct1]
  note e1 = a [THEN conjunct2, THEN conjunct2, THEN mp, OF h1, symmetric]
  note s2 = b [THEN conjunct1]
  note e2 = b [THEN conjunct2, THEN conjunct2, THEN mp, OF h2, symmetric]
  show ?thesis by (simp only: e1 e2 s1 s2 r1 r2)
qed

text \<open>
  C8: for a main-file path whose extension is in the table, the argument list is
  \<open>run\<close>, \<open>-it\<close>, \<open>--rm\<close>, \<open>--env\<close>, \<open>LOG_LEVEL=\<close> and the level, the mount flags of the
  image's tools, of the output directory, of the dependency directory and of the project
  directory in this order, the image name and the main-file path as given; this is the
  list that \<open>callScript\<close> launches with the command \<open>docker\<close>.
\<close>

theorem assembled_argument_list:
  assumes "map_of dockerRunConfigs (extname mainFilePath) = Some docker"
  shows "args (dockerRunCommand cwd docker mainFilePath logLevel) =
     [''run'', ''-it'', ''--rm'', ''--env'', ''LOG_LEVEL='' @ logLevel]
     @ (case image docker of
          lldb_debugger \<Rightarrow>
            [''--mount'', ''type=bind,source='' @ path_resolve cwd [cwd, ''./vscode-lldb'']
                          @ '',target=/usr/project/vscode-lldb'']
        | php_debugger \<Rightarrow>
            [''--mount'', ''type=bind,source='' @ path_resolve cwd [cwd, ''./vscode-php-debug'']
                          @ '',target=/usr/project/vscode-php-debug'']
        | python_debugger \<Rightarrow> [])
     @ [''--mount'', ''type=bind,source='' @ path_resolve cwd [cwd, ''./out'']
                     @ '',target=/usr/project/out'',
        ''--mount'', ''type=bind,source='' @ path_resolve cwd [cwd, ''./node_modules'']
                     @ '',target=/usr/project/node_modules'',
        ''--mount'', ''type=bind,source='' @ path_resolve cwd [cwd, dirname mainFilePath]
                     @ '',target='' @ path_resolve cwd [''/usr/project'', dirname mainFilePath],
        image_name (image docker), mainFilePath]
   \<and> (\<exists>log. fst (callScript cwd mainFilePath (Some logLevel) events) =
         [ConsoleInfo log,
          SpawnSync ''docker'' (args (dockerRunCommand cwd docker mainFilePath logLevel))]
         @ console (run initial events))"
proof (rule conjI)
  have ne: "mainFilePath \<noteq> []"
    using assms by (auto simp: extname_Nil dockerRunConfigs_def)
  show "args (dockerRunCommand cwd docker mainFilePath logLevel) =
     [''run'', ''-it'', ''--rm'', ''--env'', ''LOG_LEVEL='' @ logLevel]
     @ (case image docker of
          lldb_debugger \<Rightarrow>
            [''--mount'', ''type=bind,source='' @ path_resolve cwd [cwd, ''./vscode-lldb'']
                          @ '',target=/usr/project/vscode-lldb'']
        | php_debugger \<Rightarrow>
            [''--mount'', ''type=bind,source='' @ path_resolve cwd [cwd, ''./vscode-php-debug'']
                          @ '',target=/usr/project/vscode-php-debug'']
        | python_debugger \<Rightarrow> [])
     @ [''--mount'', ''type=bind,source='' @ path_resolve cwd [cwd, ''./out'']
                     @ '',target=/usr/project/out'',
        ''--mount'', ''type=bind,source='' @ path_resolve cwd [cwd, ''./node_modules'']
                     @ '',target=/usr/project/node_modules'',
        ''--mount'', ''type=bind,source='' @ path_resolve cwd [cwd, dirname mainFilePath]
                     @ '',target='' @ path_resolve cwd [''/usr/project'', dirname mainFilePath],
        image_name (image docker), mainFilePath]"
    by (simp only: dockerRunCommand_args [OF ne] mounts_flags fixed_mount_flags) simp
  show "\<exists>log. fst (callScript cwd mainFilePath (Some logLevel) events) =
         [ConsoleInfo log,
          SpawnSync ''docker'' (args (dockerRunCommand cwd docker mainFilePath logLevel))]
         @ console (run initial events)"
    using assms by (simp add: callScript_def Let_def dockerRunCommand_def)
qed

theorem assembled_argument_list_witness:
  "map_of dockerRunConfigs (extname ''sources/main.c'') = Some \<lparr>image = lldb_debugger\<rparr>
   \<and> args (dockerRunCommand ''/home/user/debuggers'' \<lparr>image = lldb_debugger\<rparr>
             ''sources/main.c'' ''debug'')
     = [''run'', ''-it'', ''--rm'', ''--env'', ''LOG_LEVEL=debug'',
        ''--mount'',
        ''type=bind,source=/home/user/debuggers/vscode-lldb,target=/usr/project/vscode-lldb'',
        ''--mount'', ''type=bind,source=/home/user/debuggers/out,target=/usr/project/out'',
        ''--mount'',
        ''type=bind,source=/home/user/debuggers/node_modules,target=/usr/project/node_modules'',
        ''--mount'', ''type=bind,source=/home/user/debuggers/sources,target=/usr/project/sources'',
        ''lldb-debugger'', ''sources/main.c'']"
proof -
  have h: "map_of dockerRunConfigs (extname ''sources/main.c'') = Some \<lparr>image = lldb_debugger\<rparr>"
    by code_simp
  have r:
    "path_resolve ''/home/user/debuggers'' [''/home/user/debuggers'', ''./vscode-lldb'']
       = ''/home/user/debuggers/vscode-lldb''"
    "path_resolve ''/home/user/debuggers'' [''/home/user/debuggers'', ''./out'']
       = ''/home/user/debuggers/out''"
    "path_resolve ''/home/user/debuggers'' [''/home/user/debuggers'', ''./node_modules'']
       = ''/home/user/debuggers/node_modules''"
    "path_resolve ''/home/user/debuggers'' [''/home/user/debuggers'', dirname ''sources/main.c'']
       = ''/home/user/debuggers/sources''"
    "path_resolve ''/home/user/debuggers'' [''/usr/project'', dirname ''sources/main.c'']
       = ''/usr/project/sources''"
    by code_simp+
  from assembled_argument_list [OF h, of "''/home/user/debuggers''" "''debug''", THEN conjunct1] h
  show ?thesis by (simp add: r)
qed

text \<open>
  C9: whatever the descriptor, the level and the main-file path, no element of the
  assembled argument list is the empty string. Every element is a string, and the empty
  string is the only falsy one.
\<close>

theorem no_empty_argument:
  "'''' \<notin> set (args (dockerRunCommand cwd docker mainFilePath logLevel))"
  by (simp add: dockerRunCommand_def Let_def)

theorem no_empty_argument_witness:
  "'''' \<notin> set (args (dockerRunCommand ''/home/user/debuggers'' \<lparr>image = python_debugger\<rparr>
                      '''' ''''))
   \<and> args (dockerRunCommand ''/home/user/debuggers'' \<lparr>image = python_debugger\<rparr> '''' '''')
     = [''run'', ''-it'', ''--rm'', ''--env'', ''LOG_LEVEL='',
        ''--mount'', ''type=bind,source=/home/user/debuggers/out,target=/usr/project/out'',
        ''--mount'',
        ''type=bind,source=/home/user/debuggers/node_modules,target=/usr/project/node_modules'',
        ''--mount'', ''type=bind,source=/home/user/debuggers,target=/usr/project'',
        ''python-debugger'']"
proof -
  have e: "args (dockerRunCommand ''/home/user/debuggers'' \<lparr>image = python_debugger\<rparr> '''' '''')
     = [''run'', ''-it'', ''--rm'', ''--env'', ''LOG_LEVEL='',
        ''--mount'', ''type=bind,source=/home/user/debuggers/out,target=/usr/project/out'',
        ''--mount'',
        ''type=bind,source=/home/user/debuggers/node_modules,target=/usr/project/node_modules'',
        ''--mount'', ''type=bind,source=/home/user/debuggers,target=/usr/project'',
        ''python-debugger'']"
    by code_simp
  from no_empty_argument
         [of "''/home/user/debuggers''" "\<lparr>image = python_debugger\<rparr>" "''''" "''''"] e
  show ?thesis by simp
qed

section \<open>Properties of \<^verbatim>\<open>callScript\<close>\<close>

text \<open>
  C4, as stated: for an extension outside the table, \<open>callScript\<close> throws an
  \<open>UnsupportedExtension\<close> error synchronously. It fails at the path \<open>prog.rb\<close>: the
  function is \<^verbatim>\<open>async\<close>, so the call completes normally and returns a promise, which
  is rejected; and the error is a plain \<^verbatim>\<open>Error\<close>, whose name is \<open>Error\<close>.
\<close>

theorem unknown_extension_is_not_thrown_to_the_caller:
  \<open>extname ''prog.rb'' = ''.rb''
   \<and> ''.rb'' \<notin> {''.c'', ''.cpp'', ''.php'', ''.py''}
   \<and> callScript_call ''/home/user/debuggers'' ''prog.rb'' None =
       ([], Return (Rejected
              (Error ''Unknown extension ".rb". Accepted: ".c", ".cpp", ".php", ".py"'')))
   \<and> snd (callScript_call ''/home/user/debuggers'' ''prog.rb'' None) \<noteq>
       Throw (Error ''Unknown extension ".rb". Accepted: ".c", ".cpp", ".php", ".py"'')
   \<and> error_name (Error ''Unknown extension ".rb". Accepted: ".c", ".cpp", ".php", ".py"'')
       = ''Error''
   \<and> error_name (Error ''Unknown extension ".rb". Accepted: ".c", ".cpp", ".php", ".py"'')
       \<noteq> ''UnsupportedExtension''\<close>
proof -
  have e: "extname ''prog.rb'' = ''.rb''" by code_simp
  have c: \<open>callScript_call ''/home/user/debuggers'' ''prog.rb'' None =
       ([], Return (Rejected
              (Error ''Unknown extension ".rb". Accepted: ".c", ".cpp", ".php", ".py"'')))\<close>
    by (simp add: callScript_call_def callScript_def Let_def e dockerRunConfigs_def)
  show ?thesis by (simp add: e c)
qed

text \<open>
  C4, amended: when the extension of the main-file path is not one of \<open>.c\<close>, \<open>.cpp\<close>,
  \<open>.php\<close>, \<open>.py\<close>, the body of \<open>callScript\<close> throws, before any effect (nothing
  logged, no mount planned, no process started), a plain \<^verbatim>\<open>Error\<close> whose message names
  the extension and lists the four supported ones; the call returns a promise that is
  already rejected with this error, and no later event changes it.
\<close>

theorem unknown_extension_is_rejected:
  assumes "extname mainFilePath \<notin> {''.c'', ''.cpp'', ''.php'', ''.py''}"
  shows \<open>callScript cwd mainFilePath logLevel events =
          ([], Throws (Error (''Unknown extension "'' @ extname mainFilePath
                              @ ''". Accepted: ".c", ".cpp", ".php", ".py"'')))
        \<and> callScript_call cwd mainFilePath logLevel =
          ([], Return (Rejected (Error (''Unknown extension "'' @ extname mainFilePath
                                        @ ''". Accepted: ".c", ".cpp", ".php", ".py"''))))
        \<and> callScript_promise cwd mainFilePath logLevel events =
          Rejected (Error (''Unknown extension "'' @ extname mainFilePath
                           @ ''". Accepted: ".c", ".cpp", ".php", ".py"''))
        \<and> error_name (Error (''Unknown extension "'' @ extname mainFilePath
                              @ ''". Accepted: ".c", ".cpp", ".php", ".py"'')) = ''Error''\<close>
proof -
  have body: \<open>callScript cwd mainFilePath logLevel evs =
          ([], Throws (Error (''Unknown extension "'' @ extname mainFilePath
                              @ ''". Accepted: ".c", ".cpp", ".php", ".py"'')))\<close> for evs
    using assms by (simp add: callScript_def Let_def dockerRunConfigs_def)
  show ?thesis
    by (simp add: body callScript_call_def callScript_promise_def)
qed

theorem unknown_extension_is_rejected_witness:
  \<open>extname ''prog.rb'' = ''.rb'' \<and>
   callScript ''/home/user/debuggers'' ''prog.rb'' None [Data ''RESULT_BEGIN{}RESULT_END''] =
     ([], Throws (Error ''Unknown extension ".rb". Accepted: ".c", ".cpp", ".php", ".py"''))
   \<and> callScript_call ''/home/user/debuggers'' ''prog.rb'' None =
     ([], Return (Rejected
            (Error ''Unknown extension ".rb". Accepted: ".c", ".cpp", ".php", ".py"'')))
   \<and> callScript_promise ''/home/user/debuggers'' ''prog.rb'' None
         [Data ''RESULT_BEGIN{}RESULT_END''] =
     Rejected (Error ''Unknown extension ".rb". Accepted: ".c", ".cpp", ".php", ".py"'')\<close>
proof -
  have e: "extname ''prog.rb'' = ''.rb''" by code_simp
  have h: "extname ''prog.rb'' \<notin> {''.c'', ''.cpp'', ''.php'', ''.py''}"
    by (simp add: e)
  from unknown_extension_is_rejected
         [OF h, of "''/home/user/debuggers''" None "[Data ''RESULT_BEGIN{}RESULT_END'']"] e
  show ?thesis by simp
qed

text \<open>
  C10: a main-file path whose last component holds no dot has the empty extension; the
  empty string is not a key of the table; and whenever the extension is empty,
  \<open>callScript\<close> throws the unknown-extension error and has had no effect.
\<close>

theorem missing_extension_is_rejected:
  \<open>(CHR ''.'' \<notin> set (last_component mainFilePath) \<longrightarrow> extname mainFilePath = '''')
   \<and> map_of dockerRunConfigs '''' = None
   \<and> (extname mainFilePath = '''' \<longrightarrow>
        callScript cwd mainFilePath logLevel events =
          ([], Throws (Error ''Unknown extension "". Accepted: ".c", ".cpp", ".php", ".py"'')))\<close>
  by (simp add: extname_no_dot) (simp add: callScript_def Let_def dockerRunConfigs_def)

theorem missing_extension_is_rejected_witness:
  \<open>last_component ''Makefile'' = ''Makefile''
   \<and> extname ''Makefile'' = ''''
   \<and> callScript ''/home/user/debuggers'' ''Makefile'' None [] =
       ([], Throws (Error ''Unknown extension "". Accepted: ".c", ".cpp", ".php", ".py"''))
   \<and> last_component ''my.project/src//'' = ''src''
   \<and> extname ''my.project/src//'' = ''''
   \<and> callScript ''/home/user/debuggers'' ''my.project/src//'' (Some ''debug'') [] =
       ([], Throws (Error ''Unknown extension "". Accepted: ".c", ".cpp", ".php", ".py"''))\<close>
proof -
  have l1: "last_component ''Makefile'' = ''Makefile''" by code_simp
  have l2: "last_component ''my.project/src//'' = ''src''" by code_simp
  have d1: "CHR ''.'' \<notin> set (last_component ''Makefile'')" by (simp add: l1)
  have d2: "CHR ''.'' \<notin> set (last_component ''my.project/src//'')" by (simp add: l2)
  from missing_extension_is_rejected [of "''Makefile''" "''/home/user/debuggers''" None "[]"]
       missing_extension_is_rejected
         [of "''my.project/src//''" "''/home/user/debuggers''" "Some ''debug''" "[]"]
       l1 l2 d1 d2
  show ?thesis by simp
qed

end
